theory Spec2Isabelle
  imports Main
begin

section \<open>Strings and small helpers\<close>

text \<open>
  The component is written in TypeScript.  A JavaScript string is modelled as an Isabelle
  \<open>string\<close>, one \<open>char\<close> per code unit.  The regular-expression classes \<open>\d\<close> and
  \<open>\D\<close> (without the unicode flag) are the ASCII digits and their complement.
\<close>

definition is_digit :: "char \<Rightarrow> bool" where
  "is_digit c = (c \<in> set ''0123456789'')"

text \<open>The first element of a list on which \<open>f\<close> succeeds, tried from the left.\<close>

fun first_match :: "('a \<Rightarrow> 'b option) \<Rightarrow> 'a list \<Rightarrow> 'b option" where
  "first_match f [] = None"
| "first_match f (x # xs) = (case f x of Some y \<Rightarrow> Some y | None \<Rightarrow> first_match f xs)"

section \<open>Formatter library: \<open>formatPhoneNumber\<close>\<close>

text \<open>
  \<^verbatim>\<open>
  const formatPhoneNumber = (value: string) => {
    const cleaned = value.replace(/\D/g, '');
    const match = cleaned.match(/^(\d{0,3})(\d{0,3})(\d{0,4})$/);
    if (match) {
      return !match[2] ? match[1]
        : !match[3] ? `(${match[1]}) ${match[2]}`
        : `(${match[1]}) ${match[2]}-${match[3]}`;
    }
    return value;
  };
  \<close>
  The pattern is matched the way a backtracking engine does it: a greedy quantifier
  \<open>\d{0,n}\<close> offers the lengths it can consume longest first, the next group is tried
  on the rest, and \<open>$\<close> accepts only at the end of the input.
\<close>

fun countdown :: "nat \<Rightarrow> nat list" where
  "countdown 0 = [0]"
| "countdown (Suc n) = Suc n # countdown n"

definition digit_runs :: "nat \<Rightarrow> string \<Rightarrow> nat list" where
  "digit_runs n s =
     filter (\<lambda>k. k \<le> length s \<and> list_all is_digit (take k s)) (countdown n)"

definition phone_pattern :: "string \<Rightarrow> (string \<times> string \<times> string) option" where
  "phone_pattern s =
     first_match (\<lambda>i.
       first_match (\<lambda>j.
         first_match (\<lambda>k.
           if drop (i + j + k) s = []
           then Some (take i s, take j (drop i s), take k (drop (i + j) s))
           else None)
         (digit_runs 4 (drop (i + j) s)))
       (digit_runs 3 (drop i s)))
     (digit_runs 3 s)"

definition strip_non_digits :: "string \<Rightarrow> string" where
  "strip_non_digits v = filter is_digit v"

definition formatPhoneNumber :: "string \<Rightarrow> string" where
  "formatPhoneNumber v =
     (let cleaned = strip_non_digits v in
      case phone_pattern cleaned of
        Some (m1, m2, m3) \<Rightarrow>
          if m2 = [] then m1
          else if m3 = [] then ''('' @ m1 @ '') '' @ m2
          else ''('' @ m1 @ '') '' @ m2 @ ''-'' @ m3
      | None \<Rightarrow> v)"

section \<open>Effects\<close>

text \<open>
  What the component does besides computing values is recorded in a trace, in the order
  in which it happens: a call of a compiled rule snippet on a value, a line written to the
  console, a call of the \<open>onSubmit\<close> property with its payload, and the timer that
  \<open>handleSubmit\<close> starts after a successful submission.
\<close>

datatype effect =
    Invoked string string
  | ConsoleLog string
  | ConsoleError string
  | OnSubmit "(string \<times> string) list"
  | SetTimeout nat

section \<open>Validation engine: \<open>validateField\<close>\<close>

text \<open>
  \<^verbatim>\<open>
  interface ValidationRule {
    field_id: string;
    generated_code: string;
    prompt?: string;
    description?: string;
  }
  const validationRules: ValidationRule[] = [];
  \<close>
\<close>

record ValidationRule =
  field_id :: string
  generated_code :: string
  prompt :: "string option"
  description :: "string option"

definition validationRules :: "ValidationRule list" where
  "validationRules = []"

text \<open>
  A rule snippet is JavaScript source text that \<open>validateField\<close> wraps in a function body
  and compiles with \<open>new Function\<close>.  What the JavaScript engine does with a snippet is a
  parameter of the model: \<open>None\<close> when \<open>new Function\<close> throws on the text (the outer
  \<open>catch\<close>), otherwise the compiled function, which on a value either returns (only the
  truthiness of the returned value is observed, by \<open>if (!isValid)\<close>) or throws (the
  \<open>catch\<close> inside the generated wrapper).  Snippets are taken to terminate and to depend
  on their argument only.
\<close>

datatype run_result = Returned bool | Threw

type_synonym js_engine = "string \<Rightarrow> (string \<Rightarrow> run_result) option"

text \<open>
  \<open>rule.prompt || rule.description || 'Invalid input'\<close>: an absent property is
  \<open>undefined\<close>; \<open>undefined\<close> and the empty string are falsy.
\<close>

definition rule_message :: "ValidationRule \<Rightarrow> string" where
  "rule_message r =
     (case prompt r of
        Some (c # cs) \<Rightarrow> c # cs
      | _ \<Rightarrow>
        (case description r of
           Some (c # cs) \<Rightarrow> c # cs
         | _ \<Rightarrow> ''Invalid input''))"

text \<open>
  \<^verbatim>\<open>
  for (const rule of fieldRules) {
    try {
      const validationFn = new Function('value', `
        try {
          const result = (function(value) { ${rule.generated_code} })(value);
          return result;
        } catch (e) {
          console.error('Validation execution error:', e);
          return true; // Fail open on execution error
        }
      `);
      const isValid = validationFn(value);
      if (!isValid) {
        return rule.prompt || rule.description || 'Invalid input';
      }
    } catch (e) {
      console.error('Validation creation error:', e);
    }
  }
  return ''; // No validation errors
  \<close>
  The loop returns the message together with the effects of the iterations it ran.
\<close>

fun apply_rules :: "js_engine \<Rightarrow> string \<Rightarrow> ValidationRule list \<Rightarrow> string \<times> effect list" where
  "apply_rules eng v [] = ([], [])"
| "apply_rules eng v (r # rs) =
     (case eng (generated_code r) of
        None \<Rightarrow>
          (let (m, t) = apply_rules eng v rs
           in (m, ConsoleError ''Validation creation error:'' # t))
      | Some validationFn \<Rightarrow>
          (case validationFn v of
             Threw \<Rightarrow>
               (let (m, t) = apply_rules eng v rs
                in (m, Invoked (generated_code r) v
                       # ConsoleError ''Validation execution error:'' # t))
           | Returned True \<Rightarrow>
               (let (m, t) = apply_rules eng v rs
                in (m, Invoked (generated_code r) v # t))
           | Returned False \<Rightarrow>
               (rule_message r, [Invoked (generated_code r) v])))"

text \<open>
  \<^verbatim>\<open>
  const validateField = (value: string, fieldId: string, fieldType?: string): string => {
    const fieldRules = validationRules.filter(rule => rule.field_id === fieldId);
    if (!fieldRules || fieldRules.length === 0) return '';
    ...
  \<close>
  The rule list is a parameter, so that the function can be studied on rule sets other
  than the empty one the file declares; the third argument is never read and is left out.
\<close>

definition validateField ::
  "js_engine \<Rightarrow> ValidationRule list \<Rightarrow> string \<Rightarrow> string \<Rightarrow> string \<times> effect list" where
  "validateField eng rules v fieldId =
     (let fieldRules = filter (\<lambda>rule. field_id rule = fieldId) rules
      in if fieldRules = [] then ([], []) else apply_rules eng v fieldRules)"

text \<open>How one rule comes out on a value, for stating properties of the loop.\<close>

datatype rule_outcome = Passes | Fails | Throws | DoesNotCompile

definition outcome :: "js_engine \<Rightarrow> string \<Rightarrow> ValidationRule \<Rightarrow> rule_outcome" where
  "outcome eng v r =
     (case eng (generated_code r) of
        None \<Rightarrow> DoesNotCompile
      | Some validationFn \<Rightarrow>
          (case validationFn v of
             Threw \<Rightarrow> Throws
           | Returned True \<Rightarrow> Passes
           | Returned False \<Rightarrow> Fails))"

fun is_invocation :: "effect \<Rightarrow> bool" where
  "is_invocation (Invoked c v) = True"
| "is_invocation _ = False"

definition execution_errors :: "effect list \<Rightarrow> nat" where
  "execution_errors t = length (filter (\<lambda>e. e = ConsoleError ''Validation execution error:'') t)"

text \<open>
  A small engine for the worked examples.  It gives four snippets the behaviour
  JavaScript gives them and is used on these four only.
\<close>

definition sample_engine :: js_engine where
  "sample_engine code =
     (if code = ''return true;'' then Some (\<lambda>v. Returned True)
      else if code = ''return false;'' then Some (\<lambda>v. Returned False)
      else if code = ''return value.length > 0;'' then Some (\<lambda>v. Returned (v \<noteq> []))
      else if code = ''throw new Error(value);'' then Some (\<lambda>v. Threw)
      else None)"

section \<open>Form schema\<close>

text \<open>
  The form definition that the component was generated from lists the fields with their
  type and whether they are required.  Only what the properties below refer to is kept:
  identifier, type, label, options and the required flag, in the order of the document.
\<close>

record FieldDescriptor =
  descriptor_id :: string
  descriptor_type :: string
  label :: string
  options :: "string list"
  required :: bool

definition form_data :: "FieldDescriptor list" where
  "form_data =
     [\<lparr>descriptor_id = ''applicant-full-name'', descriptor_type = ''text'',
       label = ''Full Name'', options = [], required = True\<rparr>,
      \<lparr>descriptor_id = ''applicant-email'', descriptor_type = ''email'',
       label = ''Email Address'', options = [], required = True\<rparr>,
      \<lparr>descriptor_id = ''passport-number'', descriptor_type = ''text'',
       label = ''Passport Number'', options = [], required = True\<rparr>,
      \<lparr>descriptor_id = ''date-of-birth'', descriptor_type = ''date'',
       label = ''Date of Birth'', options = [], required = True\<rparr>,
      \<lparr>descriptor_id = ''nationality'', descriptor_type = ''text'',
       label = ''Nationality'', options = [], required = True\<rparr>,
      \<lparr>descriptor_id = ''travel-dates'', descriptor_type = ''date'',
       label = ''Expected Travel Dates'', options = [], required = False\<rparr>,
      \<lparr>descriptor_id = ''visa-type'', descriptor_type = ''select'',
       label = ''Type of Visa'', options = [''Tourist'', ''Business'', ''Student'', ''Work''],
       required = True\<rparr>,
      \<lparr>descriptor_id = ''additional-documents'', descriptor_type = ''file'',
       label = ''Upload Additional Documents'', options = [], required = False\<rparr>]"

section \<open>Component state\<close>

text \<open>
  \<open>formData\<close> and \<open>errors\<close> are JavaScript objects with string keys.  They are lists of
  key and value in insertion order, which is the order \<open>Object.entries\<close> walks (the keys
  of this form are field names, never array indices).  \<open>{...prev, [k]: v}\<close> keeps the
  place of a key that is present and appends a new one; \<open>delete\<close> removes the key.
\<close>

type_synonym js_object = "(string \<times> string) list"


fun obj_set :: "string \<Rightarrow> string \<Rightarrow> js_object \<Rightarrow> js_object" where
  "obj_set k v [] = [(k, v)]"
| "obj_set k v ((k', v') # rest) =
     (if k' = k then (k, v) # rest else (k', v') # obj_set k v rest)"

definition obj_delete :: "string \<Rightarrow> js_object \<Rightarrow> js_object" where
  "obj_delete k obj = filter (\<lambda>(k', v'). k' \<noteq> k) obj"

text \<open>\<open>s.replace(/a/g, 'b')\<close> for single characters \<open>a\<close> and \<open>b\<close>.\<close>

definition replace_all :: "char \<Rightarrow> char \<Rightarrow> string \<Rightarrow> string" where
  "replace_all a b s = map (\<lambda>c. if c = a then b else c) s"

datatype StatusType = StatusSuccess | StatusError | StatusInfo | StatusNone

record FormStatus =
  status_type :: StatusType
  message :: string

text \<open>
  The state of one mounted component: the four \<open>useState\<close> cells that the handlers below
  touch, the \<open>submissionInProgress\<close> ref, the number of \<open>handleSubmit\<close> calls that are
  suspended at their \<open>await\<close>, and the trace of effects so far.
\<close>

record component =
  formData :: js_object
  errors :: js_object
  status :: FormStatus
  isSubmitting :: bool
  submissionInProgress :: bool
  awaiting :: nat
  trace :: "effect list"

definition initial_state :: "js_object \<Rightarrow> component" where
  "initial_state initialData =
     \<lparr>formData = initialData, errors = [],
      status = \<lparr>status_type = StatusNone, message = []\<rparr>,
      isSubmitting = False, submissionInProgress = False, awaiting = 0, trace = []\<rparr>"

text \<open>
  The tail shared by the change handlers:
  \<^verbatim>\<open>
  if (error) {
    setErrors(prev => ({ ...prev, [name]: error }));
  } else {
    setErrors(prev => { const newErrors = { ...prev }; delete newErrors[name]; return newErrors; });
  }
  \<close>
\<close>

definition set_field_error :: "string \<Rightarrow> string \<Rightarrow> js_object \<Rightarrow> js_object" where
  "set_field_error name error errs =
     (if error \<noteq> [] then obj_set name error errs else obj_delete name errs)"

section \<open>\<open>handleChange\<close>\<close>

definition handleChange ::
  "js_engine \<Rightarrow> ValidationRule list \<Rightarrow> string \<Rightarrow> string \<Rightarrow> component \<Rightarrow> component" where
  "handleChange eng rules name v st =
     (let fieldKey = replace_all CHR ''-'' CHR ''_'' name;
          (error, t) = validateField eng rules v name
      in st\<lparr>formData := obj_set fieldKey v (formData st),
             errors := set_field_error name error (errors st),
             trace := trace st @ t\<rparr>)"

section \<open>Submission: \<open>handleSubmit\<close>\<close>

text \<open>
  \<^verbatim>\<open>
  Object.entries(formData).forEach(([fieldKey, value]) => {
    const fieldId = fieldKey.replace(/_/g, '-');
    const error = validateField(value as string, fieldId);
    if (error) {
      hasErrors = true;
      newErrors[fieldId] = error;
    }
  });
  \<close>
  The loop carries \<open>newErrors\<close>, \<open>hasErrors\<close> and the effects of the rules it ran.
\<close>

fun validate_all_fields ::
  "js_engine \<Rightarrow> ValidationRule list \<Rightarrow> js_object \<Rightarrow> js_object \<times> bool \<times> effect list
     \<Rightarrow> js_object \<times> bool \<times> effect list" where
  "validate_all_fields eng rules [] acc = acc"
| "validate_all_fields eng rules ((fieldKey, v) # rest) (newErrors, hasErrors, t) =
     (let fieldId = replace_all CHR ''_'' CHR ''-'' fieldKey;
          (error, t') = validateField eng rules v fieldId
      in if error \<noteq> []
         then validate_all_fields eng rules rest (obj_set fieldId error newErrors, True, t @ t')
         else validate_all_fields eng rules rest (newErrors, hasErrors, t @ t'))"

text \<open>
  The \<open>onSubmit\<close> property is the external collaborator.  Called with the payload it
  either throws at once or returns something that \<open>handleSubmit\<close> awaits; an awaited
  call settles later, fulfilled or rejected.  A thrown value is an \<open>Error\<close> with its
  message or anything else.
\<close>

datatype thrown = ErrorObject string | OtherValue

datatype call_result = ThrowsAtCall thrown | ReturnsAwaitable

datatype settlement = Fulfilled | Rejected thrown

definition catch_block :: "thrown \<Rightarrow> component \<Rightarrow> component" where
  "catch_block e st =
     st\<lparr>status := \<lparr>status_type = StatusError,
                   message = (case e of ErrorObject m \<Rightarrow> m
                              | OtherValue \<Rightarrow> ''Failed to submit form'')\<rparr>\<rparr>"

definition finally_block :: "component \<Rightarrow> component" where
  "finally_block st = st\<lparr>isSubmitting := False, submissionInProgress := False\<rparr>"

text \<open>
  \<open>handleSubmit\<close> up to its \<open>await\<close>.  The handler is a closure of the render it was
  created in, so the \<open>isSubmitting\<close> it reads may be older than the state; the value it
  sees is the argument \<open>seen\<close>.  The ref is read and written directly.
  \<^verbatim>\<open>
  if (submissionInProgress.current || isSubmitting) {
    console.log('Submission already in progress');
    return;
  }
  setIsSubmitting(true);
  submissionInProgress.current = true;
  setStatus({ type: '', message: '' });
  try {
    ... validate all fields ...
    if (hasErrors) {
      setErrors(newErrors);
      setStatus({ type: 'error', message: 'Please correct the form errors' });
      return;
    }
    await onSubmit(formData as VisaApplicationFormComponentData);
  \<close>
\<close>

definition handleSubmit_begin ::
  "js_engine \<Rightarrow> ValidationRule list \<Rightarrow> (js_object \<Rightarrow> call_result) \<Rightarrow> bool
     \<Rightarrow> component \<Rightarrow> component" where
  "handleSubmit_begin eng rules onSubmit seen st =
     (if submissionInProgress st \<or> seen
      then st\<lparr>trace := trace st @ [ConsoleLog ''Submission already in progress'']\<rparr>
      else
        (let st1 = st\<lparr>isSubmitting := True, submissionInProgress := True,
                       status := \<lparr>status_type = StatusNone, message = []\<rparr>\<rparr>;
             (newErrors, hasErrors, t) =
                validate_all_fields eng rules (formData st1) ([], False, []);
             st2 = st1\<lparr>trace := trace st1 @ t\<rparr>
         in if hasErrors
            then finally_block
                   (st2\<lparr>errors := newErrors,
                        status := \<lparr>status_type = StatusError,
                                   message = ''Please correct the form errors''\<rparr>\<rparr>)
            else
              (let st3 = st2\<lparr>trace := trace st2 @ [OnSubmit (formData st2)]\<rparr>
               in case onSubmit (formData st2) of
                    ThrowsAtCall e \<Rightarrow> finally_block (catch_block e st3)
                  | ReturnsAwaitable \<Rightarrow> st3\<lparr>awaiting := Suc (awaiting st3)\<rparr>)))"

text \<open>
  The rest of \<open>handleSubmit\<close>, run when the awaited call settles.
  \<^verbatim>\<open>
    setStatus({ type: 'success', message: 'Form submitted successfully!' });
    setErrors({});
    setTimeout(() => { setFormData({}); }, 5000);
  } catch (error) {
    setStatus({ type: 'error',
      message: error instanceof Error ? error.message : 'Failed to submit form' });
  } finally {
    setIsSubmitting(false);
    submissionInProgress.current = false;
  }
  \<close>
  With no call suspended there is nothing to resume.
\<close>

definition handleSubmit_resume :: "settlement \<Rightarrow> component \<Rightarrow> component" where
  "handleSubmit_resume outcome_of_call st =
     (if awaiting st = 0 then st
      else
        (let st1 = st\<lparr>awaiting := awaiting st - 1\<rparr>
         in case outcome_of_call of
              Fulfilled \<Rightarrow>
                finally_block
                  (st1\<lparr>status := \<lparr>status_type = StatusSuccess,
                                   message = ''Form submitted successfully!''\<rparr>,
                        errors := [],
                        trace := trace st1 @ [SetTimeout 5000]\<rparr>)
            | Rejected e \<Rightarrow> finally_block (catch_block e st1)))"

text \<open>What can happen to a mounted component, and a run of such events.\<close>

datatype event =
    Submit bool
  | Settle settlement
  | Change string string

fun step ::
  "js_engine \<Rightarrow> ValidationRule list \<Rightarrow> (js_object \<Rightarrow> call_result) \<Rightarrow> event
     \<Rightarrow> component \<Rightarrow> component" where
  "step eng rules onSubmit (Submit seen) st = handleSubmit_begin eng rules onSubmit seen st"
| "step eng rules onSubmit (Settle s) st = handleSubmit_resume s st"
| "step eng rules onSubmit (Change name v) st = handleChange eng rules name v st"

fun run ::
  "js_engine \<Rightarrow> ValidationRule list \<Rightarrow> (js_object \<Rightarrow> call_result) \<Rightarrow> event list
     \<Rightarrow> component \<Rightarrow> component" where
  "run eng rules onSubmit [] st = st"
| "run eng rules onSubmit (e # es) st = run eng rules onSubmit es (step eng rules onSubmit e st)"

fun submit_calls :: "effect list \<Rightarrow> js_object list" where
  "submit_calls [] = []"
| "submit_calls (OnSubmit payload # t) = payload # submit_calls t"
| "submit_calls (e # t) = submit_calls t"

text \<open>
  The ref is set exactly while one call of \<open>handleSubmit\<close> is suspended, and never more
  than one is.
\<close>

definition one_in_flight :: "component \<Rightarrow> bool" where
  "one_in_flight st = (awaiting st \<le> 1 \<and> (submissionInProgress st \<longleftrightarrow> awaiting st = 1))"

section \<open>Formatter library: multi-value checkboxes\<close>









section \<open>Formatter library: phone and currency handlers\<close>

definition handlePhoneChange :: "string \<Rightarrow> string \<Rightarrow> component \<Rightarrow> component" where
  "handlePhoneChange name v st =
     (let fieldKey = replace_all CHR ''-'' CHR ''_'' name;
          formatted = formatPhoneNumber v
      in st\<lparr>formData := obj_set fieldKey formatted (formData st)\<rparr>)"

text \<open>
  \<open>parseFloat\<close> skips leading white space and reads the longest prefix that is a decimal
  literal; when there is none the result is \<open>NaN\<close>.  A prefix exists exactly when, after
  an optional sign, the text starts with \<open>Infinity\<close>, with a digit, or with a dot and a
  digit.  The value of a literal is a binary floating-point number, which is left
  abstract: \<open>numeric_value\<close> gives the number read from a text that has a literal prefix,
  and \<open>two_decimals\<close> is \<open>toFixed(2)\<close> on such a number.  \<open>NaN.toFixed(2)\<close> is the
  text \<open>NaN\<close>.
\<close>

definition is_js_whitespace :: "char \<Rightarrow> bool" where
  "is_js_whitespace c = (of_char c \<in> {9, 10, 11, 12, 13, 32, 160 :: nat})"

definition unsigned_literal_prefix :: "string \<Rightarrow> bool" where
  "unsigned_literal_prefix u =
     (take 8 u = ''Infinity'' \<or>
      (case u of
         [] \<Rightarrow> False
       | c # cs \<Rightarrow>
           is_digit c \<or>
           (c = CHR ''.'' \<and> (case cs of [] \<Rightarrow> False | d # ds \<Rightarrow> is_digit d))))"

definition literal_prefix :: "string \<Rightarrow> bool" where
  "literal_prefix t =
     (case t of
        [] \<Rightarrow> False
      | c # cs \<Rightarrow>
          if c = CHR ''+'' \<or> c = CHR ''-'' then unsigned_literal_prefix cs
          else unsigned_literal_prefix t)"

datatype 'n js_number = NaN | Number 'n

definition parseFloat :: "(string \<Rightarrow> 'n) \<Rightarrow> string \<Rightarrow> 'n js_number" where
  "parseFloat numeric_value s =
     (let trimmed = dropWhile is_js_whitespace s
      in if literal_prefix trimmed then Number (numeric_value trimmed) else NaN)"

definition toFixed2 :: "('n \<Rightarrow> string) \<Rightarrow> 'n js_number \<Rightarrow> string" where
  "toFixed2 two_decimals x = (case x of NaN \<Rightarrow> ''NaN'' | Number n \<Rightarrow> two_decimals n)"

text \<open>
  \<^verbatim>\<open>
  const handleCurrencyChange = (e: React.ChangeEvent<HTMLInputElement>) => {
    const { name, value } = e.target;
    const fieldKey = name.replace(/-/g, '_') as keyof VisaApplicationFormComponentData;
    const formatted = parseFloat(value).toFixed(2);
    setFormData(prev => ({ ...prev, [fieldKey]: formatted }));
  };
  \<close>
\<close>

definition handleCurrencyChange ::
  "(string \<Rightarrow> 'n) \<Rightarrow> ('n \<Rightarrow> string) \<Rightarrow> string \<Rightarrow> string \<Rightarrow> component \<Rightarrow> component" where
  "handleCurrencyChange numeric_value two_decimals name v st =
     (let fieldKey = replace_all CHR ''-'' CHR ''_'' name;
          formatted = toFixed2 two_decimals (parseFloat numeric_value v)
      in st\<lparr>formData := obj_set fieldKey formatted (formData st)\<rparr>)"
section \<open>Properties of the phone formatter\<close>

lemma first_match_None: "first_match f xs = None \<longleftrightarrow> (\<forall>x\<in>set xs. f x = None)"
  by (induction xs) (auto split: option.splits)

lemma first_match_countdown:
  "f m = Some y \<Longrightarrow> first_match f (countdown m) = Some y"
  by (cases m) simp_all

lemma set_countdown: "set (countdown n) = {0..n}"
  by (induction n) auto

lemma countdown_filter: "filter (\<lambda>k. k \<le> m) (countdown n) = countdown (min n m)"
proof (induction n)
  case 0 show ?case by simp
next
  case (Suc n)
  show ?case
  proof (cases "Suc n \<le> m")
    case True
    then have "min (Suc n) m = Suc n" "min n m = n" by auto
    with Suc True show ?thesis by simp
  next
    case False
    then have "min (Suc n) m = min n m" by auto
    with Suc False show ?thesis by simp
  qed
qed

lemma digit_runs_all:
  assumes "list_all is_digit s"
  shows "digit_runs n s = countdown (min n (length s))"
proof -
  have "\<And>k. list_all is_digit (take k s)"
    using assms by (auto simp: list_all_iff dest: in_set_takeD)
  then show ?thesis by (simp add: digit_runs_def countdown_filter)
qed

lemma digit_runs_bound: "k \<in> set (digit_runs n s) \<Longrightarrow> k \<le> n"
  by (auto simp: digit_runs_def set_countdown)

text \<open>More than ten characters: every way of splitting falls short of the end anchor.\<close>

lemma phone_pattern_long:
  assumes "10 < length s"
  shows "phone_pattern s = None"
proof -
  have "drop (i + j + k) s \<noteq> []" if "i \<le> 3" "j \<le> 3" "k \<le> 4" for i j k
    using that assms by simp
  then show ?thesis
    unfolding phone_pattern_def first_match_None
    by (auto dest!: digit_runs_bound)
qed

text \<open>Up to ten digits: the greedy first choice of every group already reaches the end.\<close>

lemma phone_pattern_short:
  assumes d: "list_all is_digit s" and l: "length s \<le> 10"
  shows "phone_pattern s = Some (take 3 s, take 3 (drop 3 s), drop 6 s)"
proof -
  have d1: "\<And>n. list_all is_digit (drop n s)"
    using d by (auto simp: list_all_iff dest: in_set_dropD)
  define i where "i = min 3 (length s)"
  define j where "j = min 3 (length (drop i s))"
  define k where "k = min 4 (length (drop (i + j) s))"
  have e: "drop (i + j + k) s = []"
    using l by (auto simp: i_def j_def k_def)
  have t: "take i s = take 3 s" "take j (drop i s) = take 3 (drop 3 s)"
     "take k (drop (i + j) s) = drop 6 s"
    using l by (auto simp: i_def j_def k_def min_def)
  have "first_match (\<lambda>k.
           if drop (i + j + k) s = []
           then Some (take i s, take j (drop i s), take k (drop (i + j) s))
           else None) (digit_runs 4 (drop (i + j) s))
        = Some (take 3 s, take 3 (drop 3 s), drop 6 s)"
    unfolding digit_runs_all [OF d1] k_def [symmetric]
    by (rule first_match_countdown) (simp add: e t)
  then have "first_match (\<lambda>j.
         first_match (\<lambda>k.
           if drop (i + j + k) s = []
           then Some (take i s, take j (drop i s), take k (drop (i + j) s))
           else None)
         (digit_runs 4 (drop (i + j) s)))
       (digit_runs 3 (drop i s)) = Some (take 3 s, take 3 (drop 3 s), drop 6 s)"
    unfolding digit_runs_all [OF d1, of 3] j_def [symmetric]
    by (rule first_match_countdown)
  then show ?thesis
    unfolding phone_pattern_def digit_runs_all [OF d, of 3] i_def [symmetric]
    by (rule first_match_countdown)
qed

lemma strip_all_digits: "list_all is_digit (strip_non_digits v)"
  by (simp add: strip_non_digits_def list_all_iff)

lemma strip_digits_id: "list_all is_digit d \<Longrightarrow> strip_non_digits d = d"
  by (simp add: strip_non_digits_def list_all_iff)

lemma strip_append: "strip_non_digits (a @ b) = strip_non_digits a @ strip_non_digits b"
  by (simp add: strip_non_digits_def)

lemma formatPhoneNumber_short:
  assumes "length (strip_non_digits v) \<le> 10"
  shows "formatPhoneNumber v =
     (let d = strip_non_digits v in
      if take 3 (drop 3 d) = [] then take 3 d
      else if drop 6 d = [] then ''('' @ take 3 d @ '') '' @ take 3 (drop 3 d)
      else ''('' @ take 3 d @ '') '' @ take 3 (drop 3 d) @ ''-'' @ drop 6 d)"
  by (simp add: formatPhoneNumber_def phone_pattern_short [OF strip_all_digits assms] Let_def)

lemma formatPhoneNumber_long:
  assumes "10 < length (strip_non_digits v)"
  shows "formatPhoneNumber v = v"
  by (simp add: formatPhoneNumber_def phone_pattern_long [OF assms])

lemma split3: "take 3 d @ take 3 (drop 3 d) @ drop 6 d = d"
proof -
  have "take 3 (drop 3 d) @ drop 3 (drop 3 d) = drop 3 d"
    by (rule append_take_drop_id)
  then have "take 3 (drop 3 d) @ drop 6 d = drop 3 d" by simp
  then show ?thesis by simp
qed

lemma strip_Cons:
  "strip_non_digits (c # s) = (if is_digit c then c # strip_non_digits s else strip_non_digits s)"
  by (simp add: strip_non_digits_def)

lemma punctuation_not_digit:
  "\<not> is_digit CHR ''(''" "\<not> is_digit CHR '')''" "\<not> is_digit CHR '' ''" "\<not> is_digit CHR ''-''"
  by (simp_all add: is_digit_def)

lemma strip_formatPhoneNumber:
  assumes "length (strip_non_digits v) \<le> 10"
  shows "strip_non_digits (formatPhoneNumber v) = strip_non_digits v"
proof -
  define d where "d = strip_non_digits v"
  have dd: "list_all is_digit d"
    by (simp add: d_def strip_all_digits)
  have parts: "strip_non_digits (take n d) = take n d" "strip_non_digits (drop n d) = drop n d"
    "strip_non_digits (take n (drop m d)) = take n (drop m d)" for n m
  proof -
    have "list_all is_digit (take k d) \<and> list_all is_digit (drop k d)" for k
      using dd by (metis append_take_drop_id list_all_append)
    moreover have "list_all is_digit (take n (drop m d))"
      using calculation [of m] by (metis append_take_drop_id list_all_append)
    ultimately show "strip_non_digits (take n d) = take n d"
      "strip_non_digits (drop n d) = drop n d"
      "strip_non_digits (take n (drop m d)) = take n (drop m d)"
      by (simp_all add: strip_digits_id)
  qed
  have a: "take 3 (drop 3 d) = [] \<Longrightarrow> take 3 d = d"
    by auto
  have b: "drop 6 d = [] \<Longrightarrow> take 3 d @ take 3 (drop 3 d) = d"
    using split3 [of d] by simp
  show ?thesis
    unfolding formatPhoneNumber_short [OF assms] d_def [symmetric] Let_def
    using a b split3 [of d] strip_digits_id [OF dd]
    by (simp add: strip_append strip_Cons punctuation_not_digit parts)
qed

text \<open>
  Claim C7, as the code has it.  On an input with at most ten digits
  \<open>formatPhoneNumber\<close> removes every non-digit and formats what is left by its number of
  digits: up to three digits give the digits alone, four to six give \<open>(AAA) BBB\<close>, seven
  to ten give \<open>(AAA) BBB-CCCC\<close>, with the last group as long as the digits typed so far.
  An input with more than ten digits comes back as it is, its non-digits included.  The
  function is total: no input makes it fail.
\<close>

theorem formatPhoneNumber_by_digit_count:
  "(length (strip_non_digits v) \<le> 3 \<longrightarrow>
      formatPhoneNumber v = strip_non_digits v) \<and>
   (4 \<le> length (strip_non_digits v) \<and> length (strip_non_digits v) \<le> 6 \<longrightarrow>
      formatPhoneNumber v =
        ''('' @ take 3 (strip_non_digits v) @ '') '' @ drop 3 (strip_non_digits v)) \<and>
   (7 \<le> length (strip_non_digits v) \<and> length (strip_non_digits v) \<le> 10 \<longrightarrow>
      formatPhoneNumber v =
        ''('' @ take 3 (strip_non_digits v) @ '') '' @ take 3 (drop 3 (strip_non_digits v))
          @ ''-'' @ drop 6 (strip_non_digits v)) \<and>
   (10 < length (strip_non_digits v) \<longrightarrow> formatPhoneNumber v = v)"
proof (intro conjI impI)
  assume "length (strip_non_digits v) \<le> 3"
  then show "formatPhoneNumber v = strip_non_digits v"
    by (simp add: formatPhoneNumber_short)
next
  assume h: "4 \<le> length (strip_non_digits v) \<and> length (strip_non_digits v) \<le> 6"
  then have "length (strip_non_digits v) \<le> 10" by simp
  from formatPhoneNumber_short [OF this] h
  show "formatPhoneNumber v =
        ''('' @ take 3 (strip_non_digits v) @ '') '' @ drop 3 (strip_non_digits v)"
    by (auto simp: Let_def)
next
  assume h: "7 \<le> length (strip_non_digits v) \<and> length (strip_non_digits v) \<le> 10"
  then have "length (strip_non_digits v) \<le> 10" by simp
  from formatPhoneNumber_short [OF this] h
  show "formatPhoneNumber v =
        ''('' @ take 3 (strip_non_digits v) @ '') '' @ take 3 (drop 3 (strip_non_digits v))
          @ ''-'' @ drop 6 (strip_non_digits v)"
    by (auto simp: Let_def)
next
  assume "10 < length (strip_non_digits v)"
  then show "formatPhoneNumber v = v"
    by (rule formatPhoneNumber_long)
qed

theorem formatPhoneNumber_by_digit_count_witness:
  "formatPhoneNumber ''12'' = ''12'' \<and>
   formatPhoneNumber ''123-45'' = ''(123) 45'' \<and>
   formatPhoneNumber ''555.123.4567'' = ''(555) 123-4567'' \<and>
   formatPhoneNumber ''0044 20 7946 0958'' = ''0044 20 7946 0958''"
  using formatPhoneNumber_by_digit_count [of "''12''"]
    formatPhoneNumber_by_digit_count [of "''123-45''"]
    formatPhoneNumber_by_digit_count [of "''555.123.4567''"]
    formatPhoneNumber_by_digit_count [of "''0044 20 7946 0958''"]
  by (simp add: strip_non_digits_def is_digit_def)

text \<open>
  The claim as it is worded, for every input string, fails above ten digits: the hyphens
  of a twelve-digit input are not stripped.
\<close>

theorem formatPhoneNumber_by_digit_count_counterexample:
  "strip_non_digits ''1-800-555-01234'' = ''180055501234'' \<and>
   formatPhoneNumber ''1-800-555-01234'' = ''1-800-555-01234''"
proof -
  have s: "strip_non_digits ''1-800-555-01234'' = ''180055501234''"
    by (simp add: strip_non_digits_def is_digit_def)
  then have "10 < length (strip_non_digits ''1-800-555-01234'')"
    by simp
  then have "formatPhoneNumber ''1-800-555-01234'' = ''1-800-555-01234''"
    by (rule formatPhoneNumber_long)
  with s show ?thesis by simp
qed

text \<open>
  Claim C8.  On an input with at most ten digits \<open>formatPhoneNumber\<close> is idempotent:
  formatting its own output gives that output again.
\<close>

theorem formatPhoneNumber_idempotent:
  assumes "length (strip_non_digits v) \<le> 10"
  shows "formatPhoneNumber (formatPhoneNumber v) = formatPhoneNumber v"
proof -
  have "length (strip_non_digits (formatPhoneNumber v)) \<le> 10"
    using assms by (simp add: strip_formatPhoneNumber)
  then have "formatPhoneNumber (formatPhoneNumber v) =
     (let d = strip_non_digits (formatPhoneNumber v) in
      if take 3 (drop 3 d) = [] then take 3 d
      else if drop 6 d = [] then ''('' @ take 3 d @ '') '' @ take 3 (drop 3 d)
      else ''('' @ take 3 d @ '') '' @ take 3 (drop 3 d) @ ''-'' @ drop 6 d)"
    by (rule formatPhoneNumber_short)
  also have "\<dots> = formatPhoneNumber v"
    unfolding strip_formatPhoneNumber [OF assms]
    by (rule formatPhoneNumber_short [OF assms, symmetric])
  finally show ?thesis .
qed

theorem formatPhoneNumber_idempotent_witness:
  "length (strip_non_digits ''555-123-4567'') \<le> 10 \<and>
   formatPhoneNumber ''555-123-4567'' = ''(555) 123-4567'' \<and>
   formatPhoneNumber (formatPhoneNumber ''555-123-4567'') = formatPhoneNumber ''555-123-4567''"
proof -
  have h: "length (strip_non_digits ''555-123-4567'') \<le> 10"
    by (simp add: strip_non_digits_def is_digit_def)
  have v: "formatPhoneNumber ''555-123-4567'' = ''(555) 123-4567''"
    using formatPhoneNumber_short [OF h] by (simp add: strip_non_digits_def is_digit_def)
  show ?thesis
    using h v formatPhoneNumber_idempotent [OF h] by simp
qed

text \<open>
  Claim C10.  An input with more than ten digits is returned as it was typed: the pattern
  does not match, so nothing is stripped and no grouping is inserted.
\<close>

theorem formatPhoneNumber_over_ten_digits:
  assumes "10 < length (strip_non_digits v)"
  shows "formatPhoneNumber v = v"
  using assms by (rule formatPhoneNumber_long)

theorem formatPhoneNumber_over_ten_digits_witness:
  "10 < length (strip_non_digits ''+1 (555) 123-45678'') \<and>
   formatPhoneNumber ''+1 (555) 123-45678'' = ''+1 (555) 123-45678''"
proof -
  have h: "10 < length (strip_non_digits ''+1 (555) 123-45678'')"
    by (simp add: strip_non_digits_def is_digit_def)
  show ?thesis
    using h formatPhoneNumber_over_ten_digits [OF h] by simp
qed


section \<open>Properties of the validation engine\<close>

text \<open>One iteration of the loop, by the outcome of its rule.\<close>

lemma apply_rules_step:
  "apply_rules eng v (r # rs) =
     (case outcome eng v r of
        DoesNotCompile \<Rightarrow>
          (fst (apply_rules eng v rs),
           ConsoleError ''Validation creation error:'' # snd (apply_rules eng v rs))
      | Throws \<Rightarrow>
          (fst (apply_rules eng v rs),
           Invoked (generated_code r) v # ConsoleError ''Validation execution error:''
             # snd (apply_rules eng v rs))
      | Passes \<Rightarrow>
          (fst (apply_rules eng v rs), Invoked (generated_code r) v # snd (apply_rules eng v rs))
      | Fails \<Rightarrow> (rule_message r, [Invoked (generated_code r) v]))"
  by (simp add: outcome_def split: option.splits run_result.splits bool.splits prod.splits)

lemma apply_rules_no_fail:
  assumes "\<forall>r\<in>set rs. outcome eng v r \<noteq> Fails"
  shows "fst (apply_rules eng v rs) = []"
  using assms
proof (induction rs)
  case Nil
  show ?case by simp
next
  case (Cons r rs)
  then show ?case
    by (cases "outcome eng v r") (simp_all add: apply_rules_step del: apply_rules.simps)
qed

lemma apply_rules_no_fail_errors:
  assumes "\<forall>r\<in>set rs. outcome eng v r \<noteq> Fails"
  shows "execution_errors (snd (apply_rules eng v rs))
    = length (filter (\<lambda>r. outcome eng v r = Throws) rs)"
  using assms
proof (induction rs)
  case Nil
  show ?case by (simp add: execution_errors_def)
next
  case (Cons r rs)
  then show ?case
    by (cases "outcome eng v r")
      (simp_all add: apply_rules_step execution_errors_def del: apply_rules.simps)
qed

lemma apply_rules_first_fail:
  assumes "\<forall>p\<in>set pre. outcome eng v p \<noteq> Fails" "outcome eng v r = Fails"
  shows "fst (apply_rules eng v (pre @ r # post)) = rule_message r"
  using assms
proof (induction pre)
  case Nil
  then show ?case by (simp add: apply_rules_step del: apply_rules.simps)
next
  case (Cons p pre)
  then show ?case
    by (cases "outcome eng v p") (simp_all add: apply_rules_step del: apply_rules.simps)
qed

lemma apply_rules_first_fail_invocations:
  assumes "\<forall>p\<in>set pre. outcome eng v p \<noteq> Fails" "outcome eng v r = Fails"
  shows "filter is_invocation (snd (apply_rules eng v (pre @ r # post)))
     = map (\<lambda>p. Invoked (generated_code p) v)
         (filter (\<lambda>p. outcome eng v p \<noteq> DoesNotCompile) (pre @ [r]))"
  using assms
proof (induction pre)
  case Nil
  then show ?case by (simp add: apply_rules_step del: apply_rules.simps)
next
  case (Cons p pre)
  then show ?case
    by (cases "outcome eng v p") (simp_all add: apply_rules_step del: apply_rules.simps)
qed

text \<open>The early return for an empty rule list agrees with running the loop on it.\<close>

lemma validateField_apply_rules:
  "validateField eng rules v fieldId =
     apply_rules eng v (filter (\<lambda>rule. field_id rule = fieldId) rules)"
  by (simp add: validateField_def Let_def)

text \<open>
  Claim C4.  A field that no validation rule names is valid whatever its value:
  \<open>validateField\<close> returns the empty string (and runs nothing).  With the rule list
  that the file declares, which is empty, this covers every field.
\<close>

theorem validateField_no_rules:
  "(filter (\<lambda>rule. field_id rule = fieldId) rules = [] \<longrightarrow>
      validateField eng rules v fieldId = ([], [])) \<and>
   validateField eng validationRules v fieldId = ([], [])"
  by (simp add: validateField_def validationRules_def Let_def)

theorem validateField_no_rules_witness:
  "validateField sample_engine
     [\<lparr>field_id = ''passport-number'', generated_code = ''return false;'',
       prompt = Some ''Passport number is not valid'', description = None\<rparr>]
     ''not an email'' ''applicant-email'' = ([], [])"
  using validateField_no_rules [of "''applicant-email''"
     "[\<lparr>field_id = ''passport-number'', generated_code = ''return false;'',
        prompt = Some ''Passport number is not valid'', description = None\<rparr>]"
     sample_engine "''not an email''"]
  by simp

text \<open>
  Claim C5.  The rules of a field are evaluated in the order of the rule list.  The first
  rule whose predicate comes out false ends the loop: its prompt is returned, or its
  description when the prompt is absent or empty, or \<open>Invalid input\<close> when both are, and
  no later rule is invoked (the invocations are those of the rules up to and including
  it).  When every predicate comes out true the result is the empty string.
\<close>

theorem validateField_first_failing_rule:
  "(filter (\<lambda>rule. field_id rule = fieldId) rules = pre @ r # post \<and>
    (\<forall>p\<in>set pre. outcome eng v p \<noteq> Fails) \<and> outcome eng v r = Fails \<longrightarrow>
      (\<forall>m. prompt r = Some m \<and> m \<noteq> [] \<longrightarrow> fst (validateField eng rules v fieldId) = m) \<and>
      (\<forall>m. prompt r \<in> {None, Some []} \<and> description r = Some m \<and> m \<noteq> [] \<longrightarrow>
           fst (validateField eng rules v fieldId) = m) \<and>
      (prompt r \<in> {None, Some []} \<and> description r \<in> {None, Some []} \<longrightarrow>
           fst (validateField eng rules v fieldId) = ''Invalid input'') \<and>
      filter is_invocation (snd (validateField eng rules v fieldId)) =
        map (\<lambda>p. Invoked (generated_code p) v)
          (filter (\<lambda>p. outcome eng v p \<noteq> DoesNotCompile) (pre @ [r]))) \<and>
   ((\<forall>p\<in>set (filter (\<lambda>rule. field_id rule = fieldId) rules). outcome eng v p = Passes) \<longrightarrow>
      fst (validateField eng rules v fieldId) = [])"
proof (intro conjI impI)
  assume h: "filter (\<lambda>rule. field_id rule = fieldId) rules = pre @ r # post \<and>
    (\<forall>p\<in>set pre. outcome eng v p \<noteq> Fails) \<and> outcome eng v r = Fails"
  then have m: "fst (validateField eng rules v fieldId) = rule_message r"
    by (simp add: validateField_apply_rules apply_rules_first_fail)
  show "\<forall>m. prompt r = Some m \<and> m \<noteq> [] \<longrightarrow> fst (validateField eng rules v fieldId) = m"
    unfolding m by (auto simp: rule_message_def split: list.splits)
  show "\<forall>m. prompt r \<in> {None, Some []} \<and> description r = Some m \<and> m \<noteq> [] \<longrightarrow>
           fst (validateField eng rules v fieldId) = m"
    unfolding m by (auto simp: rule_message_def split: list.splits)
  show "fst (validateField eng rules v fieldId) = ''Invalid input''"
    if "prompt r \<in> {None, Some []} \<and> description r \<in> {None, Some []}"
    using that unfolding m by (auto simp: rule_message_def)
  show "filter is_invocation (snd (validateField eng rules v fieldId)) =
        map (\<lambda>p. Invoked (generated_code p) v)
          (filter (\<lambda>p. outcome eng v p \<noteq> DoesNotCompile) (pre @ [r]))"
    using h apply_rules_first_fail_invocations [of pre eng v r post]
    by (simp add: validateField_apply_rules)
next
  assume "\<forall>p\<in>set (filter (\<lambda>rule. field_id rule = fieldId) rules). outcome eng v p = Passes"
  then have "\<forall>p\<in>set (filter (\<lambda>rule. field_id rule = fieldId) rules). outcome eng v p \<noteq> Fails"
    by simp
  then have "fst (apply_rules eng v (filter (\<lambda>rule. field_id rule = fieldId) rules)) = []"
    by (rule apply_rules_no_fail)
  then show "fst (validateField eng rules v fieldId) = []"
    by (simp add: validateField_apply_rules)
qed

theorem validateField_first_failing_rule_witness:
  "fst (validateField sample_engine
     [\<lparr>field_id = ''passport-number'', generated_code = ''return true;'',
       prompt = Some ''never shown'', description = None\<rparr>,
      \<lparr>field_id = ''applicant-email'', generated_code = ''return false;'',
       prompt = Some ''Email is not valid'', description = None\<rparr>,
      \<lparr>field_id = ''passport-number'', generated_code = ''return value.length > 0;'',
       prompt = None, description = Some ''Passport number is required''\<rparr>,
      \<lparr>field_id = ''passport-number'', generated_code = ''return false;'',
       prompt = Some ''Second failure'', description = None\<rparr>]
     [] ''passport-number'') = ''Passport number is required'' \<and>
   filter is_invocation (snd (validateField sample_engine
     [\<lparr>field_id = ''passport-number'', generated_code = ''return true;'',
       prompt = Some ''never shown'', description = None\<rparr>,
      \<lparr>field_id = ''applicant-email'', generated_code = ''return false;'',
       prompt = Some ''Email is not valid'', description = None\<rparr>,
      \<lparr>field_id = ''passport-number'', generated_code = ''return value.length > 0;'',
       prompt = None, description = Some ''Passport number is required''\<rparr>,
      \<lparr>field_id = ''passport-number'', generated_code = ''return false;'',
       prompt = Some ''Second failure'', description = None\<rparr>]
     [] ''passport-number''))
     = [Invoked ''return true;'' [], Invoked ''return value.length > 0;'' []] \<and>
   fst (validateField sample_engine
     [\<lparr>field_id = ''passport-number'', generated_code = ''return true;'',
       prompt = Some ''never shown'', description = None\<rparr>,
      \<lparr>field_id = ''passport-number'', generated_code = ''return value.length > 0;'',
       prompt = None, description = Some ''Passport number is required''\<rparr>]
     ''X1234567'' ''passport-number'') = []"
  using validateField_first_failing_rule [of "''passport-number''"
     "[\<lparr>field_id = ''passport-number'', generated_code = ''return true;'',
       prompt = Some ''never shown'', description = None\<rparr>,
      \<lparr>field_id = ''applicant-email'', generated_code = ''return false;'',
       prompt = Some ''Email is not valid'', description = None\<rparr>,
      \<lparr>field_id = ''passport-number'', generated_code = ''return value.length > 0;'',
       prompt = None, description = Some ''Passport number is required''\<rparr>,
      \<lparr>field_id = ''passport-number'', generated_code = ''return false;'',
       prompt = Some ''Second failure'', description = None\<rparr>]"
     "[\<lparr>field_id = ''passport-number'', generated_code = ''return true;'',
       prompt = Some ''never shown'', description = None\<rparr>]"
     "\<lparr>field_id = ''passport-number'', generated_code = ''return value.length > 0;'',
       prompt = None, description = Some ''Passport number is required''\<rparr>"
     "[\<lparr>field_id = ''passport-number'', generated_code = ''return false;'',
       prompt = Some ''Second failure'', description = None\<rparr>]"
     sample_engine "[]"]
   validateField_first_failing_rule [of "''passport-number''"
     "[\<lparr>field_id = ''passport-number'', generated_code = ''return true;'',
       prompt = Some ''never shown'', description = None\<rparr>,
      \<lparr>field_id = ''passport-number'', generated_code = ''return value.length > 0;'',
       prompt = None, description = Some ''Passport number is required''\<rparr>]"
     "[]" "\<lparr>field_id = [], generated_code = [], prompt = None, description = None\<rparr>" "[]"
     sample_engine "''X1234567''"]
  by (simp add: outcome_def sample_engine_def)

text \<open>
  What a throwing rule does to the loop: the message is the one the remaining rules give,
  and up to the first failing rule every throwing rule leaves one line on the console.
\<close>

lemma apply_rules_first_fail_errors:
  assumes "\<forall>p\<in>set pre. outcome eng v p \<noteq> Fails" "outcome eng v r = Fails"
  shows "execution_errors (snd (apply_rules eng v (pre @ r # post)))
     = length (filter (\<lambda>p. outcome eng v p = Throws) pre)"
  using assms
proof (induction pre)
  case Nil
  then show ?case
    by (simp add: apply_rules_step execution_errors_def del: apply_rules.simps)
next
  case (Cons p pre)
  then show ?case
    by (cases "outcome eng v p")
      (simp_all add: apply_rules_step execution_errors_def del: apply_rules.simps)
qed

lemma apply_rules_skip_throwing:
  "fst (apply_rules eng v rs) =
   fst (apply_rules eng v (filter (\<lambda>r. outcome eng v r \<noteq> Throws) rs))"
proof (induction rs)
  case Nil
  show ?case by simp
next
  case (Cons r rs)
  then show ?case
    by (cases "outcome eng v r") (simp_all add: apply_rules_step del: apply_rules.simps)
qed

lemma filter_swap: "filter P (filter Q xs) = filter Q (filter P xs)"
  by (induction xs) auto

text \<open>
  Claim C6, as the code has it.  A rule whose predicate throws counts as passed and the
  loop goes on to the next rule: the message of \<open>validateField\<close> is the message it gives
  with the throwing rules taken out of the list.  So the field is valid (the result is
  empty) when no rule of the field comes out false, and otherwise the first rule that
  comes out false decides.  The exception never leaves \<open>validateField\<close>: in every case
  the result is a message.  In every case, too, exactly one execution-error line is
  written to the console for each throwing predicate that was evaluated: for all the
  throwing rules of the field when none fails, and for those before the first failing
  rule when one does.
\<close>

theorem validateField_fail_open:
  "fst (validateField eng rules v fieldId) =
     fst (validateField eng (filter (\<lambda>r. outcome eng v r \<noteq> Throws) rules) v fieldId) \<and>
   ((\<forall>r\<in>set (filter (\<lambda>rule. field_id rule = fieldId) rules). outcome eng v r \<noteq> Fails) \<longrightarrow>
      fst (validateField eng rules v fieldId) = [] \<and>
      execution_errors (snd (validateField eng rules v fieldId)) =
        length (filter (\<lambda>r. outcome eng v r = Throws)
                  (filter (\<lambda>rule. field_id rule = fieldId) rules))) \<and>
   (filter (\<lambda>rule. field_id rule = fieldId) rules = pre @ r # post \<and>
    (\<forall>p\<in>set pre. outcome eng v p \<noteq> Fails) \<and> outcome eng v r = Fails \<longrightarrow>
      fst (validateField eng rules v fieldId) = rule_message r \<and>
      execution_errors (snd (validateField eng rules v fieldId)) =
        length (filter (\<lambda>p. outcome eng v p = Throws) pre))"
proof (intro conjI impI)
  show "fst (validateField eng rules v fieldId) =
     fst (validateField eng (filter (\<lambda>r. outcome eng v r \<noteq> Throws) rules) v fieldId)"
    unfolding validateField_apply_rules
    by (subst apply_rules_skip_throwing) (simp only: filter_swap)
next
  assume h: "\<forall>r\<in>set (filter (\<lambda>rule. field_id rule = fieldId) rules). outcome eng v r \<noteq> Fails"
  show "fst (validateField eng rules v fieldId) = []"
    unfolding validateField_apply_rules using h by (rule apply_rules_no_fail)
  show "execution_errors (snd (validateField eng rules v fieldId)) =
        length (filter (\<lambda>r. outcome eng v r = Throws)
                  (filter (\<lambda>rule. field_id rule = fieldId) rules))"
    unfolding validateField_apply_rules using h by (rule apply_rules_no_fail_errors)
next
  assume h: "filter (\<lambda>rule. field_id rule = fieldId) rules = pre @ r # post \<and>
    (\<forall>p\<in>set pre. outcome eng v p \<noteq> Fails) \<and> outcome eng v r = Fails"
  show "fst (validateField eng rules v fieldId) = rule_message r"
    using h by (simp add: validateField_apply_rules apply_rules_first_fail)
  show "execution_errors (snd (validateField eng rules v fieldId)) =
        length (filter (\<lambda>p. outcome eng v p = Throws) pre)"
    using h by (simp add: validateField_apply_rules apply_rules_first_fail_errors)
qed

text \<open>
  Scenario E, a single rule that throws; and a field whose second rule throws and whose
  third rejects the empty value.
\<close>

theorem validateField_fail_open_witness:
  "validateField sample_engine
     [\<lparr>field_id = ''passport-number'', generated_code = ''throw new Error(value);'',
       prompt = Some ''Passport number is not valid'', description = None\<rparr>]
     ''X1234567'' ''passport-number''
   = ([], [Invoked ''throw new Error(value);'' ''X1234567'',
           ConsoleError ''Validation execution error:'']) \<and>
   execution_errors (snd (validateField sample_engine
     [\<lparr>field_id = ''passport-number'', generated_code = ''throw new Error(value);'',
       prompt = Some ''Passport number is not valid'', description = None\<rparr>]
     ''X1234567'' ''passport-number'')) = 1 \<and>
   fst (validateField sample_engine
     [\<lparr>field_id = ''passport-number'', generated_code = ''return true;'',
       prompt = None, description = None\<rparr>,
      \<lparr>field_id = ''passport-number'', generated_code = ''throw new Error(value);'',
       prompt = None, description = None\<rparr>,
      \<lparr>field_id = ''passport-number'', generated_code = ''return value.length > 0;'',
       prompt = Some ''Passport number is required'', description = None\<rparr>]
     [] ''passport-number'') = ''Passport number is required'' \<and>
   execution_errors (snd (validateField sample_engine
     [\<lparr>field_id = ''passport-number'', generated_code = ''return true;'',
       prompt = None, description = None\<rparr>,
      \<lparr>field_id = ''passport-number'', generated_code = ''throw new Error(value);'',
       prompt = None, description = None\<rparr>,
      \<lparr>field_id = ''passport-number'', generated_code = ''return value.length > 0;'',
       prompt = Some ''Passport number is required'', description = None\<rparr>]
     [] ''passport-number'')) = 1"
  using validateField_fail_open [of sample_engine
     "[\<lparr>field_id = ''passport-number'', generated_code = ''throw new Error(value);'',
       prompt = Some ''Passport number is not valid'', description = None\<rparr>]"
     "''X1234567''" "''passport-number''" "[]"
     "\<lparr>field_id = [], generated_code = [], prompt = None, description = None\<rparr>" "[]"]
   validateField_fail_open [of sample_engine
     "[\<lparr>field_id = ''passport-number'', generated_code = ''return true;'',
       prompt = None, description = None\<rparr>,
      \<lparr>field_id = ''passport-number'', generated_code = ''throw new Error(value);'',
       prompt = None, description = None\<rparr>,
      \<lparr>field_id = ''passport-number'', generated_code = ''return value.length > 0;'',
       prompt = Some ''Passport number is required'', description = None\<rparr>]"
     "[]" "''passport-number''"
     "[\<lparr>field_id = ''passport-number'', generated_code = ''return true;'',
       prompt = None, description = None\<rparr>,
      \<lparr>field_id = ''passport-number'', generated_code = ''throw new Error(value);'',
       prompt = None, description = None\<rparr>]"
     "\<lparr>field_id = ''passport-number'', generated_code = ''return value.length > 0;'',
       prompt = Some ''Passport number is required'', description = None\<rparr>" "[]"]
  by (simp add: outcome_def sample_engine_def validateField_def rule_message_def)

text \<open>
  The claim as it is worded fails when the field has a second rule: the first rule throws
  on the value and its execution error is logged, the second comes out false, and the
  field is reported invalid.
\<close>

theorem validateField_fail_open_counterexample:
  "outcome sample_engine ''X1234567''
     \<lparr>field_id = ''passport-number'', generated_code = ''throw new Error(value);'',
      prompt = None, description = None\<rparr> = Throws \<and>
   validateField sample_engine
     [\<lparr>field_id = ''passport-number'', generated_code = ''throw new Error(value);'',
       prompt = None, description = None\<rparr>,
      \<lparr>field_id = ''passport-number'', generated_code = ''return false;'',
       prompt = None, description = None\<rparr>]
     ''X1234567'' ''passport-number''
   = (''Invalid input'',
      [Invoked ''throw new Error(value);'' ''X1234567'',
       ConsoleError ''Validation execution error:'',
       Invoked ''return false;'' ''X1234567''])"
  by (simp add: outcome_def sample_engine_def validateField_def rule_message_def)


section \<open>Properties of the submission handler\<close>

lemma submit_calls_append: "submit_calls (a @ b) = submit_calls a @ submit_calls b"
  by (induction a rule: submit_calls.induct) simp_all

lemma submit_calls_apply_rules: "submit_calls (snd (apply_rules eng v rs)) = []"
proof (induction rs)
  case Nil
  show ?case by simp
next
  case (Cons r rs)
  then show ?case
    by (cases "outcome eng v r") (simp_all add: apply_rules_step del: apply_rules.simps)
qed

lemma submit_calls_validateField: "submit_calls (snd (validateField eng rules v fieldId)) = []"
  by (simp add: validateField_apply_rules submit_calls_apply_rules)

lemma submit_calls_validate_all_fields:
  "submit_calls (snd (snd (validate_all_fields eng rules entries (newErrors, hasErrors, t))))
     = submit_calls t"
proof (induction entries arbitrary: newErrors hasErrors t)
  case Nil
  show ?case by simp
next
  case (Cons entry entries)
  obtain fieldKey v where entry: "entry = (fieldKey, v)"
    by (cases entry)
  obtain error t' where vf:
    "validateField eng rules v (replace_all CHR ''_'' CHR ''-'' fieldKey) = (error, t')"
    by (cases "validateField eng rules v (replace_all CHR ''_'' CHR ''-'' fieldKey)")
  have "submit_calls t' = []"
    using submit_calls_validateField [of eng rules v "replace_all CHR ''_'' CHR ''-'' fieldKey"]
    by (simp add: vf)
  then show ?case
    by (simp add: entry vf Cons.IH submit_calls_append)
qed

text \<open>A rejected request changes nothing but the console.\<close>

lemma handleSubmit_begin_rejected:
  assumes "submissionInProgress st \<or> seen"
  shows "handleSubmit_begin eng rules onSubmit seen st =
     st\<lparr>trace := trace st @ [ConsoleLog ''Submission already in progress'']\<rparr>"
  using assms by (simp add: handleSubmit_begin_def)

text \<open>An accepted request whose validation passes calls the collaborator and suspends.\<close>

lemma handleSubmit_begin_accepted:
  assumes "\<not> submissionInProgress st" "\<not> seen"
    and "\<not> fst (snd (validate_all_fields eng rules (formData st) ([], False, [])))"
    and "onSubmit (formData st) = ReturnsAwaitable"
  shows "submissionInProgress (handleSubmit_begin eng rules onSubmit seen st)"
    and "submit_calls (trace (handleSubmit_begin eng rules onSubmit seen st)) =
           submit_calls (trace st) @ [formData st]"
    and "awaiting (handleSubmit_begin eng rules onSubmit seen st) = Suc (awaiting st)"
proof -
  obtain newErrors hasErrors t where va:
    "validate_all_fields eng rules (formData st) ([], False, []) = (newErrors, hasErrors, t)"
    by (cases "validate_all_fields eng rules (formData st) ([], False, [])") auto
  have t: "submit_calls t = []"
    using submit_calls_validate_all_fields [of eng rules "formData st" "[]" False "[]"]
    by (simp add: va)
  have h: "\<not> hasErrors"
    using assms(3) by (simp add: va)
  show "submissionInProgress (handleSubmit_begin eng rules onSubmit seen st)"
    using assms(1,2,4) h by (simp add: handleSubmit_begin_def va Let_def)
  show "submit_calls (trace (handleSubmit_begin eng rules onSubmit seen st)) =
           submit_calls (trace st) @ [formData st]"
    using assms(1,2,4) h t by (simp add: handleSubmit_begin_def va Let_def submit_calls_append)
  show "awaiting (handleSubmit_begin eng rules onSubmit seen st) = Suc (awaiting st)"
    using assms(1,2,4) h by (simp add: handleSubmit_begin_def va Let_def)
qed

lemma one_in_flight_begin:
  assumes "one_in_flight st"
  shows "one_in_flight (handleSubmit_begin eng rules onSubmit seen st)"
proof (cases "submissionInProgress st \<or> seen")
  case True
  then show ?thesis
    using assms by (simp add: handleSubmit_begin_rejected one_in_flight_def)
next
  case False
  obtain newErrors hasErrors t where va:
    "validate_all_fields eng rules (formData st) ([], False, []) = (newErrors, hasErrors, t)"
    by (cases "validate_all_fields eng rules (formData st) ([], False, [])") auto
  from False assms have z: "awaiting st = 0"
    by (auto simp: one_in_flight_def)
  show ?thesis
    using False z
    by (cases "onSubmit (formData st)")
      (simp_all add: handleSubmit_begin_def va Let_def one_in_flight_def finally_block_def
        catch_block_def)
qed

lemma one_in_flight_resume:
  assumes "one_in_flight st"
  shows "one_in_flight (handleSubmit_resume s st)"
  using assms
  by (cases s)
    (auto simp: handleSubmit_resume_def one_in_flight_def finally_block_def catch_block_def
      Let_def)

lemma one_in_flight_change:
  assumes "one_in_flight st"
  shows "one_in_flight (handleChange eng rules name v st)"
  using assms
  by (simp add: handleChange_def one_in_flight_def Let_def split: prod.splits)

lemma one_in_flight_step:
  "one_in_flight st \<Longrightarrow> one_in_flight (step eng rules onSubmit e st)"
  by (cases e) (simp_all add: one_in_flight_begin one_in_flight_resume one_in_flight_change)

lemma one_in_flight_run:
  "one_in_flight st \<Longrightarrow> one_in_flight (run eng rules onSubmit es st)"
  by (induction es arbitrary: st) (simp_all add: one_in_flight_step)

lemma one_in_flight_initial: "one_in_flight (initial_state initialData)"
  by (simp add: one_in_flight_def initial_state_def)

text \<open>
  Claim C1.  A submit request that finds the guard set (the ref, or the \<open>isSubmitting\<close>
  the handler sees) is rejected: the state stays as it is, a line is logged and the
  collaborator is not called.  Two requests in a row, the second before the awaited call
  of the first has settled, call the collaborator exactly once, with the form data.  In
  every run of the component from its initial state at most one call is in flight.
\<close>

theorem handleSubmit_at_most_one_submission:
  "(submissionInProgress st \<or> seen \<longrightarrow>
      handleSubmit_begin eng rules onSubmit seen st =
        st\<lparr>trace := trace st @ [ConsoleLog ''Submission already in progress'']\<rparr>) \<and>
   (\<not> submissionInProgress st \<and> \<not> seen \<and>
    \<not> fst (snd (validate_all_fields eng rules (formData st) ([], False, []))) \<and>
    onSubmit (formData st) = ReturnsAwaitable \<longrightarrow>
      submit_calls (trace (handleSubmit_begin eng rules onSubmit seen'
                             (handleSubmit_begin eng rules onSubmit seen st))) =
        submit_calls (trace st) @ [formData st]) \<and>
   awaiting (run eng rules onSubmit es (initial_state initialData)) \<le> 1"
proof (intro conjI impI)
  assume "submissionInProgress st \<or> seen"
  then show "handleSubmit_begin eng rules onSubmit seen st =
        st\<lparr>trace := trace st @ [ConsoleLog ''Submission already in progress'']\<rparr>"
    by (rule handleSubmit_begin_rejected)
next
  assume h: "\<not> submissionInProgress st \<and> \<not> seen \<and>
    \<not> fst (snd (validate_all_fields eng rules (formData st) ([], False, []))) \<and>
    onSubmit (formData st) = ReturnsAwaitable"
  let ?st1 = "handleSubmit_begin eng rules onSubmit seen st"
  from h have busy: "submissionInProgress ?st1"
    and calls: "submit_calls (trace ?st1) = submit_calls (trace st) @ [formData st]"
    by (simp_all add: handleSubmit_begin_accepted)
  from busy have "handleSubmit_begin eng rules onSubmit seen' ?st1 =
      ?st1\<lparr>trace := trace ?st1 @ [ConsoleLog ''Submission already in progress'']\<rparr>"
    by (simp add: handleSubmit_begin_rejected)
  then show "submit_calls (trace (handleSubmit_begin eng rules onSubmit seen' ?st1)) =
        submit_calls (trace st) @ [formData st]"
    by (simp add: calls submit_calls_append)
next
  have "one_in_flight (run eng rules onSubmit es (initial_state initialData))"
    by (rule one_in_flight_run [OF one_in_flight_initial])
  then show "awaiting (run eng rules onSubmit es (initial_state initialData)) \<le> 1"
    by (simp add: one_in_flight_def)
qed

theorem handleSubmit_at_most_one_submission_witness:
  "handleSubmit_begin sample_engine validationRules (\<lambda>payload. ReturnsAwaitable) False
     (handleSubmit_begin sample_engine validationRules (\<lambda>payload. ReturnsAwaitable) False
        (initial_state [(''applicant_full_name'', ''Jane Doe'')]))
   = (handleSubmit_begin sample_engine validationRules (\<lambda>payload. ReturnsAwaitable) False
        (initial_state [(''applicant_full_name'', ''Jane Doe'')]))
       \<lparr>trace := [OnSubmit [(''applicant_full_name'', ''Jane Doe'')],
                   ConsoleLog ''Submission already in progress'']\<rparr> \<and>
   submit_calls (trace
     (handleSubmit_begin sample_engine validationRules (\<lambda>payload. ReturnsAwaitable) False
       (handleSubmit_begin sample_engine validationRules (\<lambda>payload. ReturnsAwaitable) False
          (initial_state [(''applicant_full_name'', ''Jane Doe'')]))))
   = [[(''applicant_full_name'', ''Jane Doe'')]]"
  using handleSubmit_at_most_one_submission [of
      "handleSubmit_begin sample_engine validationRules (\<lambda>payload. ReturnsAwaitable) False
        (initial_state [(''applicant_full_name'', ''Jane Doe'')])"
      False sample_engine validationRules "\<lambda>payload. ReturnsAwaitable" False "[]" "[]"]
    handleSubmit_at_most_one_submission [of
      "initial_state [(''applicant_full_name'', ''Jane Doe'')]"
      False sample_engine validationRules "\<lambda>payload. ReturnsAwaitable" False "[]" "[]"]
  by (simp add: handleSubmit_begin_def initial_state_def validationRules_def
      validateField_def replace_all_def Let_def)

text \<open>
  With the rule list that the file declares, validation finds nothing in any form data, and
  an accepted request always reaches the collaborator.
\<close>

lemma validate_all_fields_no_rules:
  "validate_all_fields eng validationRules entries acc = acc"
proof (induction entries arbitrary: acc)
  case Nil
  show ?case by simp
next
  case (Cons entry entries)
  obtain fieldKey v where entry: "entry = (fieldKey, v)"
    by (cases entry)
  obtain newErrors hasErrors t where acc: "acc = (newErrors, hasErrors, t)"
    by (cases acc)
  have "validateField eng validationRules v (replace_all CHR ''_'' CHR ''-'' fieldKey) = ([], [])"
    by (simp add: validateField_def validationRules_def)
  then show ?case
    by (simp add: entry acc Cons.IH)
qed

lemma handleSubmit_begin_no_rules:
  assumes "\<not> submissionInProgress st" "\<not> seen" "onSubmit (formData st) = ReturnsAwaitable"
  shows "handleSubmit_begin eng validationRules onSubmit seen st =
     st\<lparr>isSubmitting := True, submissionInProgress := True,
        status := \<lparr>status_type = StatusNone, message = []\<rparr>,
        trace := trace st @ [OnSubmit (formData st)],
        awaiting := Suc (awaiting st)\<rparr>"
  using assms
  by (simp add: handleSubmit_begin_def validate_all_fields_no_rules Let_def)

text \<open>
  Claim C3, checked on the code.  The full name is a required field of the schema and
  the file declares no validation rule.  Submitting with the full name empty does not
  stop at validation: the error map stays empty, the collaborator is called with the
  empty value and the component waits for it.  (The form is rendered with
  \<open>noValidate\<close>, so the \<open>required\<close> attribute of the input does not stop the event
  either.)
\<close>

theorem handleSubmit_empty_required_field:
  "\<lparr>descriptor_id = ''applicant-full-name'', descriptor_type = ''text'',
     label = ''Full Name'', options = [], required = True\<rparr> \<in> set form_data \<and>
   handleSubmit_begin eng validationRules (\<lambda>payload. ReturnsAwaitable) False
     (initial_state [(''applicant_full_name'', []), (''applicant_email'', ''a@b.com'')])
   = \<lparr>formData = [(''applicant_full_name'', []), (''applicant_email'', ''a@b.com'')],
      errors = [],
      status = \<lparr>status_type = StatusNone, message = []\<rparr>,
      isSubmitting = True, submissionInProgress = True, awaiting = 1,
      trace = [OnSubmit [(''applicant_full_name'', []), (''applicant_email'', ''a@b.com'')]]\<rparr>"
  by (simp add: form_data_def handleSubmit_begin_def initial_state_def validationRules_def
      validateField_def replace_all_def Let_def)


section \<open>Properties of the multi-value checkbox handler\<close>














section \<open>Properties of the currency handler\<close>

text \<open>
  Claim C2, checked on the code.  The text \<open>abc\<close> has no numeric prefix, so
  \<open>parseFloat\<close> gives \<open>NaN\<close>; the handler raises nothing and records no field error,
  and the value stored for the field, here \<open>12.50\<close>, is overwritten with the text
  \<open>NaN\<close>.  The same happens when the field is cleared (the empty text).  This holds
  whatever the arithmetic on numeric input is.
\<close>

theorem handleCurrencyChange_non_numeric:
  "parseFloat numeric_value ''abc'' = NaN \<and>
   handleCurrencyChange numeric_value two_decimals ''visa-fee'' ''abc''
     (initial_state [(''visa_fee'', ''12.50'')])
   = (initial_state [(''visa_fee'', ''12.50'')])\<lparr>formData := [(''visa_fee'', ''NaN'')]\<rparr> \<and>
   parseFloat numeric_value [] = NaN \<and>
   handleCurrencyChange numeric_value two_decimals ''visa-fee'' []
     (initial_state [(''visa_fee'', ''12.50'')])
   = (initial_state [(''visa_fee'', ''12.50'')])\<lparr>formData := [(''visa_fee'', ''NaN'')]\<rparr>"
  by (simp add: handleCurrencyChange_def parseFloat_def toFixed2_def literal_prefix_def
      unsigned_literal_prefix_def is_js_whitespace_def is_digit_def replace_all_def
      initial_state_def Let_def)


end
